theory Spec2Isabelle
  imports Main
begin

section \<open>Data model of the server-profile fragment (package ov)\<close>

text \<open>
  The Go structs of the server-profile file become records with the fields in the order
  of the source. \<open>utils.Nstring\<close> is a string type (the code compares its values
  with the empty string literal; its method \<open>String\<close> is declared elsewhere), a Go
  \<open>int\<close> that only carries a value read from JSON is an \<open>int\<close>, a slice is a list
  (the nil slice and the empty slice are both \<open>[]\<close>), and a value of the interface
  \<open>error\<close> is an \<open>error option\<close>, with \<open>None\<close> for \<open>nil\<close>. The types \<open>Connection\<close>, \<open>LocalStorageOptions\<close> and
  \<open>SanStorageOptions\<close> are declared in other files of the package: they are the type
  parameters \<open>'c\<close>, \<open>'l\<close> and \<open>'s\<close>.
\<close>

type_synonym Nstring = string

datatype error = Error string

record FirmwareOptionv200 =
  FirmwareInstallType :: string

record FirmwareOption = FirmwareOptionv200 +
  ForceInstallFirmware :: bool
  FirmwareBaselineUri :: Nstring
  ManageFirmware :: bool

record BootModeOption =
  ManageMode :: bool
  Mode :: string
  PXEBootPolicy :: Nstring

record BootManagement =
  ManageBoot :: bool
  Order :: "string list"

record BiosSettings =
  ID :: string
  Value :: string

record BiosOption =
  ManageBios :: bool
  OverriddenSettings :: "BiosSettings list"

text \<open>
  \<open>ServerHardware\<close> is declared in another file of the package; the two fields that the
  server-profile code reads are modelled.
\<close>

record ServerHardware =
  Name :: string
  URI :: Nstring

record ('c, 'l, 's) ServerProfile =
  Affinity :: string
  AssociatedServer :: Nstring
  Bios :: BiosOption
  Boot :: BootManagement
  BootMode :: BootModeOption
  Category :: string
  Connections :: "'c list"
  Description :: string
  Created :: string
  ETAG :: string
  EnclosureBay :: int
  EnclosureGroupURI :: Nstring
  EnclosureURI :: Nstring
  Firmware :: FirmwareOption
  HideUnusedFlexNics :: bool
  InProgress :: bool
  LocalStorage :: 'l
  MACType :: string
  Modified :: string
  Name :: string
  SanStorage :: 's
  SerialNumber :: Nstring
  SerialNumberType :: string
  ServerHardwareTypeURI :: Nstring
  ServerHardwareURI :: Nstring
  State :: string
  Status :: string
  TaskURI :: Nstring
  Type :: string
  URI :: Nstring
  UUID :: Nstring
  WWNType :: string

record ('c, 'l, 's) ServerProfileList =
  Total :: int
  Count :: int
  Start :: int
  PrevPageURI :: Nstring
  NextPageURI :: Nstring
  URI :: Nstring
  Members :: "('c, 'l, 's) ServerProfile list"

text \<open>
  \<open>Task\<close> is declared in another file of the package. The server-profile code touches
  one field, \<open>TaskIsDone\<close>; the fields it never names are the component \<open>TaskFields\<close>
  of parameter type \<open>'t\<close>.
\<close>

record 't Task =
  TaskIsDone :: bool
  TaskFields :: 't

subsection \<open>Zero values\<close>

definition zero_FirmwareOption :: FirmwareOption where
  "zero_FirmwareOption =
     \<lparr>FirmwareInstallType = '''', ForceInstallFirmware = False,
      FirmwareBaselineUri = '''', ManageFirmware = False\<rparr>"

definition zero_BootModeOption :: BootModeOption where
  "zero_BootModeOption = \<lparr>ManageMode = False, Mode = '''', PXEBootPolicy = ''''\<rparr>"

definition zero_BootManagement :: BootManagement where
  "zero_BootManagement = \<lparr>ManageBoot = False, Order = []\<rparr>"

definition zero_BiosOption :: BiosOption where
  "zero_BiosOption = \<lparr>ManageBios = False, OverriddenSettings = []\<rparr>"

definition zero_ServerHardware :: ServerHardware where
  "zero_ServerHardware = \<lparr>ServerHardware.Name = '''', URI = ''''\<rparr>"

text \<open>
  The zero value of \<open>ServerProfile\<close>, given the zero values of the two struct-typed
  fields whose types are parameters.
\<close>

definition zero_ServerProfile :: "'l \<Rightarrow> 's \<Rightarrow> ('c, 'l, 's) ServerProfile" where
  "zero_ServerProfile zl zs =
     \<lparr>Affinity = '''',
      AssociatedServer = '''',
      Bios = zero_BiosOption,
      Boot = zero_BootManagement,
      BootMode = zero_BootModeOption,
      Category = '''',
      Connections = [],
      Description = '''',
      Created = '''',
      ETAG = '''',
      EnclosureBay = 0,
      EnclosureGroupURI = '''',
      EnclosureURI = '''',
      Firmware = zero_FirmwareOption,
      HideUnusedFlexNics = False,
      InProgress = False,
      LocalStorage = zl,
      MACType = '''',
      Modified = '''',
      Name = '''',
      SanStorage = zs,
      SerialNumber = '''',
      SerialNumberType = '''',
      ServerHardwareTypeURI = '''',
      ServerHardwareURI = '''',
      State = '''',
      Status = '''',
      TaskURI = '''',
      Type = '''',
      URI = '''',
      UUID = '''',
      WWNType = ''''\<rparr>"

definition zero_ServerProfileList :: "('c, 'l, 's) ServerProfileList" where
  "zero_ServerProfileList =
     \<lparr>Total = 0, Count = 0, Start = 0, PrevPageURI = '''', NextPageURI = '''',
      URI = '''', Members = []\<rparr>"


section \<open>Collaborators that live outside the server-profile file\<close>

text \<open>
  The server-profile code calls into the REST layer, the JSON decoder and other files of
  the package. What they answer is a parameter of the model, collected in one record:
  \<^item> \<open>Connection_Clone\<close>, \<open>LocalStorageOptions_Clone\<close>, \<open>SanStorageOptions_Clone\<close>: the
    \<open>Clone\<close> methods of the three field types, and the zero values of the two
    struct-typed ones;
  \<^item> \<open>Nstring_String\<close>: the method \<open>String\<close> of \<open>utils.Nstring\<close>;
  \<^item> \<open>NewProfileTask\<close>, \<open>ResetTask\<close>: the constructor of a task handle and its reset;
    \<open>ResetTask\<close> mutates the handle it is called on, so it maps the handle to the new
    one;
  \<^item> \<open>RestAPICall_answer\<close>: what the appliance answers to a REST call, a pair of the
    response body and the error, as a function of everything the client did before;
  \<^item> \<open>Unmarshal_Task\<close>, \<open>Unmarshal_ServerProfileList\<close>: \<open>json.Unmarshal\<close> into a task
    handle and into a profile list; the decoder may have written some fields before it
    reports an error, so it returns the target as it leaves it, and the error. The
    pointer \<open>t\<close> points to a task after the call: a body that is the JSON literal
    \<open>null\<close>, for which the decoder sets the pointer to nil, is outside the model;
  \<^item> \<open>Wait_answer\<close>: what \<open>Task.Wait\<close> returns for a handle, as a function of the history;
  \<^item> \<open>GetServerHardware_answer\<close>: the pair that \<open>GetServerHardware\<close> returns.

  Every collaborator returns: \<open>Task.Wait\<close> polls until the task is terminal or its
  timeout has passed, and the other calls are single requests.
\<close>

datatype Method = GET | POST | DELETE

text \<open>
  Every call that leaves the server-profile file and may reach the appliance is recorded
  as an event, in the order of the calls. The query map built by \<open>GetProfiles\<close> is the
  list of its entries. Logging calls (\<open>log.Debugf\<close>, \<open>log.Infof\<close>, ...) only print and
  are left out.
\<close>

datatype ('c, 'l, 's, 't) event =
    EvRefreshLogin
  | EvSetAuthHeaderOptions
  | EvSetQueryString "(string \<times> string) list"
  | EvRestAPICall Method string "('c, 'l, 's) ServerProfile option"
  | EvGetServerHardware Nstring
  | EvPowerOff ServerHardware
  | EvWait "'t Task"

record ('c, 'l, 's, 't) ov_deps =
  Connection_Clone :: "'c \<Rightarrow> 'c"
  LocalStorageOptions_Clone :: "'l \<Rightarrow> 'l"
  SanStorageOptions_Clone :: "'s \<Rightarrow> 's"
  zero_LocalStorageOptions :: 'l
  zero_SanStorageOptions :: 's
  Nstring_String :: "Nstring \<Rightarrow> string"
  NewProfileTask :: "'t Task"
  ResetTask :: "'t Task \<Rightarrow> 't Task"
  RestAPICall_answer ::
    "('c, 'l, 's, 't) event list \<Rightarrow> Method \<Rightarrow> string \<Rightarrow> ('c, 'l, 's) ServerProfile option
       \<Rightarrow> string \<times> error option"
  Unmarshal_Task :: "string \<Rightarrow> 't Task \<Rightarrow> 't Task \<times> error option"
  Unmarshal_ServerProfileList ::
    "string \<Rightarrow> ('c, 'l, 's) ServerProfileList \<Rightarrow> ('c, 'l, 's) ServerProfileList \<times> error option"
  Wait_answer :: "('c, 'l, 's, 't) event list \<Rightarrow> 't Task \<Rightarrow> error option"
  GetServerHardware_answer ::
    "('c, 'l, 's, 't) event list \<Rightarrow> Nstring \<Rightarrow> ServerHardware \<times> error option"

text \<open>The client \<open>OVClient\<close>, as far as this file sees it: the history of its calls.\<close>

record ('c, 'l, 's, 't) OVClient =
  trace :: "('c, 'l, 's, 't) event list"

text \<open>A Go function either returns or panics.\<close>

datatype 'a outcome = Panicked | Returned 'a

subsection \<open>The calls that leave the file\<close>

definition RefreshLogin :: "('c, 'l, 's, 't) OVClient \<Rightarrow> ('c, 'l, 's, 't) OVClient" where
  "RefreshLogin c = c\<lparr>trace := trace c @ [EvRefreshLogin]\<rparr>"

definition SetAuthHeaderOptions :: "('c, 'l, 's, 't) OVClient \<Rightarrow> ('c, 'l, 's, 't) OVClient" where
  "SetAuthHeaderOptions c = c\<lparr>trace := trace c @ [EvSetAuthHeaderOptions]\<rparr>"

definition SetQueryString ::
  "(string \<times> string) list \<Rightarrow> ('c, 'l, 's, 't) OVClient \<Rightarrow> ('c, 'l, 's, 't) OVClient" where
  "SetQueryString q c = c\<lparr>trace := trace c @ [EvSetQueryString q]\<rparr>"

definition RestAPICall ::
  "('c, 'l, 's, 't) ov_deps \<Rightarrow> Method \<Rightarrow> string \<Rightarrow> ('c, 'l, 's) ServerProfile option
     \<Rightarrow> ('c, 'l, 's, 't) OVClient \<Rightarrow> (string \<times> error option) \<times> ('c, 'l, 's, 't) OVClient" where
  "RestAPICall d m uri body c =
     (RestAPICall_answer d (trace c) m uri body,
      c\<lparr>trace := trace c @ [EvRestAPICall m uri body]\<rparr>)"

definition GetServerHardware ::
  "('c, 'l, 's, 't) ov_deps \<Rightarrow> Nstring \<Rightarrow> ('c, 'l, 's, 't) OVClient
     \<Rightarrow> (ServerHardware \<times> error option) \<times> ('c, 'l, 's, 't) OVClient" where
  "GetServerHardware d uri c =
     (GetServerHardware_answer d (trace c) uri,
      c\<lparr>trace := trace c @ [EvGetServerHardware uri]\<rparr>)"

definition PowerOff ::
  "ServerHardware \<Rightarrow> ('c, 'l, 's, 't) OVClient \<Rightarrow> ('c, 'l, 's, 't) OVClient" where
  "PowerOff server c = c\<lparr>trace := trace c @ [EvPowerOff server]\<rparr>"

definition Wait ::
  "('c, 'l, 's, 't) ov_deps \<Rightarrow> 't Task \<Rightarrow> ('c, 'l, 's, 't) OVClient
     \<Rightarrow> error option \<times> ('c, 'l, 's, 't) OVClient" where
  "Wait d t c = (Wait_answer d (trace c) t, c\<lparr>trace := trace c @ [EvWait t]\<rparr>)"

section \<open>The operations of the server-profile file\<close>

subsection \<open>ServerProfile.Clone\<close>

text \<open>The loop \<open>for _, c := range s.Connections { ca = append(ca, c.Clone()) }\<close>.\<close>

fun Clone_loop :: "('c \<Rightarrow> 'c) \<Rightarrow> 'c list \<Rightarrow> 'c list \<Rightarrow> 'c list" where
  "Clone_loop cl [] ca = ca"
| "Clone_loop cl (c # cs) ca = Clone_loop cl cs (ca @ [cl c])"

text \<open>
  The composite literal names eighteen fields; Go gives every field it does not name
  its zero value.
\<close>

definition Clone ::
  "('c, 'l, 's, 't) ov_deps \<Rightarrow> ('c, 'l, 's) ServerProfile \<Rightarrow> ('c, 'l, 's) ServerProfile" where
  "Clone d s =
     (let ca = Clone_loop (Connection_Clone d) (Connections s) []
      in (zero_ServerProfile (zero_LocalStorageOptions d) (zero_SanStorageOptions d))
           \<lparr>Affinity := Affinity s,
            Bios := Bios s,
            Boot := Boot s,
            BootMode := BootMode s,
            Connections := ca,
            Description := Description s,
            EnclosureBay := EnclosureBay s,
            EnclosureGroupURI := EnclosureGroupURI s,
            EnclosureURI := EnclosureURI s,
            Firmware := Firmware s,
            HideUnusedFlexNics := HideUnusedFlexNics s,
            LocalStorage := LocalStorageOptions_Clone d (LocalStorage s),
            MACType := MACType s,
            Name := ServerProfile.Name s,
            SanStorage := SanStorageOptions_Clone d (SanStorage s),
            SerialNumberType := SerialNumberType s,
            Type := Type s,
            WWNType := WWNType s\<rparr>)"

subsection \<open>GetProfiles, GetProfileByName, GetProfileBySN\<close>

text \<open>
  \<open>GetProfiles\<close> returns the pair \<open>(profiles, err)\<close>. The query map \<open>q\<close> gets the
  entry \<open>filter\<close> and the entry \<open>sort\<close> when the argument is not empty, and is handed
  to the client when it has an entry. The parameters \<open>filter\<close> and \<open>sort\<close> are
  \<open>filter_str\<close> and \<open>sort_str\<close> here.
\<close>

definition GetProfiles ::
  "('c, 'l, 's, 't) ov_deps \<Rightarrow> string \<Rightarrow> string \<Rightarrow> ('c, 'l, 's, 't) OVClient
     \<Rightarrow> (('c, 'l, 's) ServerProfileList \<times> error option) \<times> ('c, 'l, 's, 't) OVClient" where
  "GetProfiles d filter_str sort_str c =
     (let uri = ''/rest/server-profiles'';
          profiles = zero_ServerProfileList;
          q = [];
          q = (if filter_str \<noteq> '''' then q @ [(''filter'', filter_str)] else q);
          q = (if sort_str \<noteq> '''' then q @ [(''sort'', sort_str)] else q);
          c = RefreshLogin c;
          c = SetAuthHeaderOptions c;
          c = (if length q > 0 then SetQueryString q c else c);
          ((data, err), c) = RestAPICall d GET uri None c
      in if err \<noteq> None then ((profiles, err), c)
         else
           (let (profiles, uerr) = Unmarshal_ServerProfileList d data profiles
            in if uerr \<noteq> None then ((profiles, uerr), c)
               else ((profiles, None), c)))"

text \<open>
  \<open>fmt.Sprintf("name matches '%s'", name)\<close>: the argument between two single quotes
  (the character \<open>0x27\<close>).
\<close>

definition name_filter :: "string \<Rightarrow> string" where
  "name_filter name = ''name matches '' @ [CHR 0x27] @ name @ [CHR 0x27]"

definition serialNumber_filter :: "string \<Rightarrow> string" where
  "serialNumber_filter serialnum = ''serialNumber matches '' @ [CHR 0x27] @ serialnum @ [CHR 0x27]"

text \<open>
  \<open>profiles.Members[0]\<close> panics with an index out of range when the slice is empty.
  The test \<open>profiles.Total > 0\<close> is made whatever \<open>err\<close> is, and \<open>err\<close> is returned
  beside the profile on both branches.
\<close>

definition GetProfileByName ::
  "('c, 'l, 's, 't) ov_deps \<Rightarrow> string \<Rightarrow> ('c, 'l, 's, 't) OVClient
     \<Rightarrow> ((('c, 'l, 's) ServerProfile \<times> error option) \<times> ('c, 'l, 's, 't) OVClient) outcome" where
  "GetProfileByName d name c =
     (let profile = zero_ServerProfile (zero_LocalStorageOptions d) (zero_SanStorageOptions d);
          ((profiles, err), c) = GetProfiles d (name_filter name) ''name:asc'' c
      in if Total profiles > 0 then
           (case Members profiles of
              [] \<Rightarrow> Panicked
            | m # _ \<Rightarrow> Returned ((m, err), c))
         else Returned ((profile, err), c))"

definition GetProfileBySN ::
  "('c, 'l, 's, 't) ov_deps \<Rightarrow> string \<Rightarrow> ('c, 'l, 's, 't) OVClient
     \<Rightarrow> ((('c, 'l, 's) ServerProfile \<times> error option) \<times> ('c, 'l, 's, 't) OVClient) outcome" where
  "GetProfileBySN d serialnum c =
     (let profile = zero_ServerProfile (zero_LocalStorageOptions d) (zero_SanStorageOptions d);
          ((profiles, err), c) = GetProfiles d (serialNumber_filter serialnum) ''name:asc'' c
      in if Total profiles > 0 then
           (case Members profiles of
              [] \<Rightarrow> Panicked
            | m # _ \<Rightarrow> Returned ((m, err), c))
         else Returned ((profile, err), c))"

subsection \<open>SubmitNewProfile, CreateProfileFromTemplate\<close>

text \<open>
  \<open>SubmitNewProfile\<close> returns the pair \<open>(t, err)\<close>. The \<open>err\<close> of the decoder is a
  variable of the \<open>if\<close> statement, so the last \<open>return t, err\<close> returns the \<open>err\<close> of
  the REST call, which is \<open>nil\<close> there.
\<close>

definition SubmitNewProfile ::
  "('c, 'l, 's, 't) ov_deps \<Rightarrow> ('c, 'l, 's) ServerProfile \<Rightarrow> ('c, 'l, 's, 't) OVClient
     \<Rightarrow> ('t Task \<times> error option) \<times> ('c, 'l, 's, 't) OVClient" where
  "SubmitNewProfile d p c =
     (let uri = ''/rest/server-profiles'';
          t = NewProfileTask d;
          t = ResetTask d t;
          ((data, err), c) = RestAPICall d POST uri (Some p) c
      in if err \<noteq> None then ((t\<lparr>TaskIsDone := True\<rparr>, err), c)
         else
           (let (t, uerr) = Unmarshal_Task d data t
            in if uerr \<noteq> None then ((t\<lparr>TaskIsDone := True\<rparr>, uerr), c)
               else ((t, err), c)))"

text \<open>
  The local snapshot that \<open>CreateProfileFromTemplate\<close> builds before it submits: the
  clone of the template and the three assignments to \<open>new_template\<close>.
\<close>

definition new_template_of ::
  "('c, 'l, 's, 't) ov_deps \<Rightarrow> string \<Rightarrow> ('c, 'l, 's) ServerProfile \<Rightarrow> ServerHardware
     \<Rightarrow> ('c, 'l, 's) ServerProfile" where
  "new_template_of d name template blade =
     (let new_template = Clone d template;
          new_template = new_template\<lparr>ServerHardwareURI := ServerHardware.URI blade\<rparr>;
          new_template = new_template\<lparr>Description := Description new_template @ '' '' @ name\<rparr>;
          new_template = new_template\<lparr>Name := name\<rparr>
      in new_template)"

text \<open>
  The \<open>err\<close> that \<open>SubmitNewProfile\<close> returns is overwritten by the result of \<open>Wait\<close>
  before it is read.
\<close>

definition CreateProfileFromTemplate ::
  "('c, 'l, 's, 't) ov_deps \<Rightarrow> string \<Rightarrow> ('c, 'l, 's) ServerProfile \<Rightarrow> ServerHardware
     \<Rightarrow> ('c, 'l, 's, 't) OVClient \<Rightarrow> error option \<times> ('c, 'l, 's, 't) OVClient" where
  "CreateProfileFromTemplate d name template blade c =
     (let new_template = new_template_of d name template blade;
          ((t, err), c) = SubmitNewProfile d new_template c;
          (err, c) = Wait d t c
      in if err \<noteq> None then (err, c) else (None, c))"

subsection \<open>SubmitDeleteProfile, DeleteProfile\<close>

definition SubmitDeleteProfile ::
  "('c, 'l, 's, 't) ov_deps \<Rightarrow> ('c, 'l, 's) ServerProfile \<Rightarrow> ('c, 'l, 's, 't) OVClient
     \<Rightarrow> ('t Task \<times> error option) \<times> ('c, 'l, 's, 't) OVClient" where
  "SubmitDeleteProfile d p c =
     (let uri = Nstring_String d (ServerProfile.URI p);
          err = None;
          t = NewProfileTask d;
          t = ResetTask d t
      in if uri = '''' then ((t\<lparr>TaskIsDone := True\<rparr>, err), c)
         else
           (let ((data, err), c) = RestAPICall d DELETE uri None c
            in if err \<noteq> None then ((t\<lparr>TaskIsDone := True\<rparr>, err), c)
               else
                 (let (t, uerr) = Unmarshal_Task d data t
                  in if uerr \<noteq> None then ((t\<lparr>TaskIsDone := True\<rparr>, uerr), c)
                     else ((t, err), c))))"

text \<open>
  The part of \<open>DeleteProfile\<close> between the test of the profile's name and the submit
  step: the server hardware is looked up when the profile names one (\<open>server\<close> takes
  the returned value whatever the error is), and it is powered off when it has a name.
  The result of \<open>PowerOff\<close> is dropped.
\<close>

definition DeleteProfile_power_off ::
  "('c, 'l, 's, 't) ov_deps \<Rightarrow> ('c, 'l, 's) ServerProfile \<Rightarrow> ('c, 'l, 's, 't) OVClient
     \<Rightarrow> ('c, 'l, 's, 't) OVClient" where
  "DeleteProfile_power_off d profile c =
     (let server = zero_ServerHardware;
          (server, c) =
            (if ServerHardwareURI profile \<noteq> '''' then
               (let ((server, err), c) = GetServerHardware d (ServerHardwareURI profile) c
                in (server, c))
             else (server, c))
      in if ServerHardware.Name server \<noteq> '''' then PowerOff server c else c)"

definition DeleteProfile ::
  "('c, 'l, 's, 't) ov_deps \<Rightarrow> string \<Rightarrow> ('c, 'l, 's, 't) OVClient
     \<Rightarrow> (error option \<times> ('c, 'l, 's, 't) OVClient) outcome" where
  "DeleteProfile d name c =
     (case GetProfileByName d name c of
        Panicked \<Rightarrow> Panicked
      | Returned ((profile, err), c) \<Rightarrow>
          if err \<noteq> None then Returned (err, c)
          else if ServerProfile.Name profile \<noteq> '''' then
            (let c = DeleteProfile_power_off d profile c;
                 ((t, err), c) = SubmitDeleteProfile d profile c;
                 (err, c) = Wait d t c
             in if err \<noteq> None then Returned (err, c) else Returned (None, c))
          else Returned (None, c))"

section \<open>The example programs\<close>

text \<open>
  The examples drive the SDK client of package \<open>ov\<close>, which is not part of these files.
  Its constructor \<open>NewOVClient\<close> takes seven arguments; they are the fields of
  \<open>NewOVClient_args\<close>, in the order of the call. \<open>os.Getenv\<close> is a function from the
  name of a variable to its value, \<open>strconv.Atoi\<close> and \<open>ov.LoadConfigFile\<close> are
  parameters that return the value and the error.
\<close>

record NewOVClient_args =
  user :: string
  password :: string
  domain :: string
  endpoint :: string
  sslverify :: bool
  apiversion :: int
  ifmatch :: string

record Configuration =
  UserName :: string
  Password :: string
  Domain :: string
  Endpoint :: string
  SSlVerify :: bool
  ApiVersion :: int
  IfMatch :: string

subsection \<open>How each example builds its client\<close>

text \<open>The scope example \<open>scope.go\<close>: four variables of the environment and three literals.\<close>

definition scope_client_args :: "(string \<Rightarrow> string) \<Rightarrow> NewOVClient_args" where
  "scope_client_args getenv =
     \<lparr>user = getenv ''ONEVIEW_OV_USER'',
      password = getenv ''ONEVIEW_OV_PASSWORD'',
      domain = getenv ''ONEVIEW_OV_DOMAIN'',
      endpoint = getenv ''ONEVIEW_OV_ENDPOINT'',
      sslverify = False,
      apiversion = 800,
      ifmatch = ''*''\<rparr>"

text \<open>
  The scope and ethernet-network example:
  \<open>apiversion, _ := strconv.Atoi(os.Getenv("ONEVIEW_APIVERSION"))\<close> drops the error.
\<close>

definition scope_ethernet_client_args ::
  "(string \<Rightarrow> int \<times> error option) \<Rightarrow> (string \<Rightarrow> string) \<Rightarrow> NewOVClient_args" where
  "scope_ethernet_client_args Atoi getenv =
     (let (apiversion, _) = Atoi (getenv ''ONEVIEW_APIVERSION'')
      in \<lparr>user = getenv ''ONEVIEW_OV_USER'',
          password = getenv ''ONEVIEW_OV_PASSWORD'',
          domain = getenv ''ONEVIEW_OV_DOMAIN'',
          endpoint = getenv ''ONEVIEW_OV_ENDPOINT'',
          sslverify = False,
          apiversion = apiversion,
          ifmatch = ''*''\<rparr>)"

text \<open>The appliance SSH access example builds its client the same way.\<close>

definition appliance_ssh_access_client_args ::
  "(string \<Rightarrow> int \<times> error option) \<Rightarrow> (string \<Rightarrow> string) \<Rightarrow> NewOVClient_args" where
  "appliance_ssh_access_client_args Atoi getenv =
     (let (apiversion, _) = Atoi (getenv ''ONEVIEW_APIVERSION'')
      in \<lparr>user = getenv ''ONEVIEW_OV_USER'',
          password = getenv ''ONEVIEW_OV_PASSWORD'',
          domain = getenv ''ONEVIEW_OV_DOMAIN'',
          endpoint = getenv ''ONEVIEW_OV_ENDPOINT'',
          sslverify = False,
          apiversion = apiversion,
          ifmatch = ''*''\<rparr>)"

text \<open>
  The FC-network example \<open>fc_config.go\<close>: the error of \<open>LoadConfigFile\<close> is printed
  and the returned \<open>config\<close> is used whatever the error is.
\<close>

definition fc_config_client_args ::
  "(string \<Rightarrow> Configuration \<times> error option) \<Rightarrow> NewOVClient_args" where
  "fc_config_client_args LoadConfigFile =
     (let (config, err1) = LoadConfigFile ''oneview_config.json''
      in \<lparr>user = UserName config,
          password = Password config,
          domain = Configuration.Domain config,
          endpoint = Endpoint config,
          sslverify = SSlVerify config,
          apiversion = ApiVersion config,
          ifmatch = IfMatch config\<rparr>)"

subsection \<open>The scope example\<close>

text \<open>
  \<open>ov.Scope\<close> and \<open>ov.ScopeList\<close> with the fields the example names. The SDK methods
  the example calls are the fields of \<open>scope_sdk\<close>: each takes the client and returns
  its results and the client, of a type \<open>'w\<close> that the example never looks into.
\<close>

record Scope =
  Name :: string
  Description :: string
  Type :: string
  URI :: Nstring
  InitialScopeUris :: "Nstring list"
  AddedResourceUris :: "Nstring list"

record ScopeList =
  Members :: "Scope list"

record 'w scope_sdk =
  NewOVClient :: "NewOVClient_args \<Rightarrow> 'w"
  GetScopeByName :: "string \<Rightarrow> 'w \<Rightarrow> (Scope \<times> error option) \<times> 'w"
  GetScopes ::
    "string \<Rightarrow> string \<Rightarrow> string \<Rightarrow> string \<Rightarrow> string \<Rightarrow> 'w \<Rightarrow> (ScopeList \<times> error option) \<times> 'w"
  CreateScope :: "Scope \<Rightarrow> 'w \<Rightarrow> error option \<times> 'w"
  UpdateScope :: "Scope \<Rightarrow> 'w \<Rightarrow> error option \<times> 'w"
  DeleteScope :: "string \<Rightarrow> 'w \<Rightarrow> error option \<times> 'w"

text \<open>
  What the program writes: one entry for each \<open>fmt.Println\<close>, the list of its
  arguments. How the program ends: it returns from \<open>main\<close>, or \<open>panic(err)\<close> stops it.
\<close>

datatype printed = PString string | PError "error option" | PScope Scope

datatype exit_status = ExitNormal | ExitPanic error

text \<open>The loop \<open>for i := 0; i < len(l.Members); i++ { fmt.Println(l.Members[i].Name) }\<close>.\<close>

fun print_names :: "Scope list \<Rightarrow> printed list list \<Rightarrow> printed list list" where
  "print_names [] out = out"
| "print_names (m # ms) out = print_names ms (out @ [[PString (Scope.Name m)]])"

text \<open>Lines 67 to 85 of \<open>scope.go\<close>: the list after the update, the deletion, the last list.\<close>

definition scope_main_tail ::
  "'w scope_sdk \<Rightarrow> string \<Rightarrow> string \<Rightarrow> 'w \<Rightarrow> printed list list \<Rightarrow> printed list list \<times> exit_status" where
  "scope_main_tail sdk upd_scope sort_str ovc out =
     (let ((up_list, err), ovc) = GetScopes sdk '''' '''' '''' '''' sort_str ovc;
          out = print_names (ScopeList.Members up_list) out;
          (err, ovc) = DeleteScope sdk upd_scope ovc
      in case err of
           Some e \<Rightarrow> (out, ExitPanic e)
         | None \<Rightarrow>
            (let out = out @ [[PString ''#...................... Deleted Scope Successfully .....#'']];
                 ((scp_list, err), ovc) = GetScopes sdk '''' '''' '''' '''' sort_str ovc;
                 out = (if err \<noteq> None then out @ [[PError err]] else out);
                 out = out @ [[PString ''# ................... Scopes List .................#'']];
                 out = print_names (ScopeList.Members scp_list) out
             in (out, ExitNormal)))"

text \<open>
  \<open>main\<close> of \<open>scope.go\<close>. On line 48 the program prints \<open>err\<close>, the variable that
  holds the error of the \<open>GetScopes\<close> call of line 34, not \<open>er\<close>.
\<close>

definition scope_main ::
  "'w scope_sdk \<Rightarrow> (string \<Rightarrow> string) \<Rightarrow> printed list list \<times> exit_status" where
  "scope_main sdk getenv =
     (let scp_name = ''updated-SD2'';
          new_scope = ''new-scope'';
          upd_scope = ''update-scope'';
          ovc = NewOVClient sdk (scope_client_args getenv);
          out = [[PString ''#................... Scope by Name ...............#'']];
          ((scp, scperr), ovc) = GetScopeByName sdk scp_name ovc;
          out = (if scperr \<noteq> None then out @ [[PError scperr]] else out);
          out = out @ [[PScope scp]];
          sort_str = ''name:desc'';
          ((scp_list, err), ovc) = GetScopes sdk '''' '''' '''' '''' sort_str ovc;
          out = (if err \<noteq> None then out @ [[PError err]] else out);
          out = out @ [[PString ''# ................... Scopes List .................#'']];
          out = print_names (ScopeList.Members scp_list) out;
          initialScopeUris = [''/rest/scopes/7f658031-c942-4336-be7a-67957cf20ba2''];
          addedResourceUris = [''/rest/ethernet-networks/6d0f7c41-9d1d-4de4-92ef-21a15bb0e8d0''];
          scope = \<lparr>Scope.Name = new_scope, Scope.Description = ''Test from script'',
                   Scope.Type = ''ScopeV3'', Scope.URI = '''',
                   InitialScopeUris = initialScopeUris,
                   AddedResourceUris = addedResourceUris\<rparr>;
          (er, ovc) = CreateScope sdk scope ovc;
          out = (if er \<noteq> None
                 then out @ [[PString ''............... Scope Creation Failed:'', PError err]]
                 else out @ [[PString ''# ................... Scope Created Successfully.................#'']]);
          ((new_scp, err), ovc) = GetScopeByName sdk new_scope ovc
      in if err \<noteq> None then
           scope_main_tail sdk upd_scope sort_str ovc (out @ [[PError err]])
         else
           (let new_scp = new_scp\<lparr>Scope.Name := upd_scope\<rparr>;
                (err, ovc) = UpdateScope sdk new_scp ovc
            in case err of
                 Some e \<Rightarrow>
                   (out @ [[PString ''#.................... Scope Updation failed ...........#'']],
                    ExitPanic e)
               | None \<Rightarrow>
                   scope_main_tail sdk upd_scope sort_str ovc
                     (out @ [[PString ''#.................... Scope after Updating ...........#'']])))"

section \<open>Sample collaborators\<close>

text \<open>
  Concrete collaborators on which the operations can be run: an appliance that answers
  every call, and one whose REST layer fails every call. Connections, storage options
  and the unnamed task fields are strings here.
\<close>

definition sample_profile :: "(string, string, string) ServerProfile" where
  "sample_profile =
     (zero_ServerProfile ''local'' ''san'')
       \<lparr>Affinity := ''Bay'',
        Category := ''server-profiles'',
        Connections := [''conn-1'', ''conn-2''],
        ServerProfile.Description := ''Docker Machine'',
        ETAG := ''1441036118675/8'',
        EnclosureBay := 16,
        ServerProfile.Name := ''Server_Profile_scs79'',
        SerialNumber := ''2M25090RMW'',
        ServerHardwareURI := ''/rest/server-hardware/3037'',
        State := ''Normal'',
        ServerProfile.URI := ''/rest/server-profiles/9979'',
        UUID := ''30373237''\<rparr>"

definition sample_blade :: ServerHardware where
  "sample_blade = \<lparr>ServerHardware.Name = ''blade-7'', URI = ''/rest/server-hardware/7''\<rparr>"

definition sample_deps :: "(string, string, string, string) ov_deps" where
  "sample_deps =
     \<lparr>Connection_Clone = (\<lambda>c. c),
      LocalStorageOptions_Clone = (\<lambda>l. l),
      SanStorageOptions_Clone = (\<lambda>s. s),
      zero_LocalStorageOptions = '''',
      zero_SanStorageOptions = '''',
      Nstring_String = (\<lambda>n. n),
      NewProfileTask = \<lparr>TaskIsDone = False, TaskFields = ''''\<rparr>,
      ResetTask = (\<lambda>t. t\<lparr>TaskIsDone := False\<rparr>),
      RestAPICall_answer = (\<lambda>tr m uri body. (''{}'', None)),
      Unmarshal_Task = (\<lambda>data t. (t\<lparr>TaskFields := data\<rparr>, None)),
      Unmarshal_ServerProfileList =
        (\<lambda>data l. (l\<lparr>Total := 1, Count := 1, ServerProfileList.Members := [sample_profile]\<rparr>, None)),
      Wait_answer = (\<lambda>tr t. None),
      GetServerHardware_answer =
        (\<lambda>tr uri. (\<lparr>ServerHardware.Name = ''blade-3037'', URI = uri\<rparr>, None))\<rparr>"

text \<open>The same collaborators behind a REST layer that returns a transport error.\<close>

definition unreachable_deps :: "(string, string, string, string) ov_deps" where
  "unreachable_deps =
     sample_deps\<lparr>RestAPICall_answer := (\<lambda>tr m uri body. ('''', Some (Error ''connection refused'')))\<rparr>"

text \<open>The same collaborators with a decoder that rejects every task body.\<close>

definition undecodable_deps :: "(string, string, string, string) ov_deps" where
  "undecodable_deps =
     sample_deps\<lparr>Unmarshal_Task := (\<lambda>data t. (t, Some (Error ''unexpected end of JSON input'')))\<rparr>"

text \<open>
  The same collaborators with an appliance that lists a profile that has a name and
  no URI, and with a \<open>Wait\<close> that reports an error for a handle that is not done.
\<close>

definition no_uri_deps :: "(string, string, string, string) ov_deps" where
  "no_uri_deps =
     sample_deps
       \<lparr>Unmarshal_ServerProfileList :=
          (\<lambda>data l. (l\<lparr>Total := 1, Count := 1, ServerProfileList.Members := [sample_profile\<lparr>ServerProfile.URI := ''''\<rparr>]\<rparr>, None)),
        Wait_answer := (\<lambda>tr t. if TaskIsDone t then None else Some (Error ''task timed out''))\<rparr>"

text \<open>
  The same collaborators with a decoder that reports one profile in \<open>Total\<close> and leaves
  \<open>Members\<close> empty.
\<close>

definition short_list_deps :: "(string, string, string, string) ov_deps" where
  "short_list_deps =
     sample_deps\<lparr>Unmarshal_ServerProfileList := (\<lambda>data l. (l\<lparr>Total := 1\<rparr>, None))\<rparr>"

definition new_client :: "(string, string, string, string) OVClient" where
  "new_client = \<lparr>trace = []\<rparr>"

text \<open>A run of the scope example's environment, and an SDK for the scope example.\<close>

definition sample_getenv :: "string \<Rightarrow> string" where
  "sample_getenv v =
     (if v = ''ONEVIEW_OV_USER'' then ''Administrator''
      else if v = ''ONEVIEW_OV_PASSWORD'' then ''secret''
      else if v = ''ONEVIEW_OV_DOMAIN'' then ''LOCAL''
      else if v = ''ONEVIEW_OV_ENDPOINT'' then ''https://10.0.0.1''
      else if v = ''ONEVIEW_APIVERSION'' then ''800''
      else '''')"

definition sample_Atoi :: "string \<Rightarrow> int \<times> error option" where
  "sample_Atoi s = (if s = ''800'' then (800, None) else (0, Some (Error ''invalid syntax'')))"

definition sample_LoadConfigFile :: "string \<Rightarrow> Configuration \<times> error option" where
  "sample_LoadConfigFile f =
     (if f = ''oneview_config.json''
      then (\<lparr>UserName = ''Administrator'', Password = ''secret'', Domain = ''LOCAL'',
             Endpoint = ''https://10.0.0.1'', SSlVerify = False, ApiVersion = 800,
             IfMatch = ''*''\<rparr>, None)
      else (\<lparr>UserName = '''', Password = '''', Domain = '''', Endpoint = '''',
             SSlVerify = False, ApiVersion = 0, IfMatch = ''''\<rparr>,
            Some (Error ''no such file'')))"

text \<open>
  An SDK whose client counts the calls of \<open>GetScopes\<close>. \<open>CreateScope\<close> fails, the
  second call of \<open>GetScopes\<close> fails, every other call succeeds and every list is empty.
\<close>

definition failing_scope_sdk :: "nat scope_sdk" where
  "failing_scope_sdk =
     \<lparr>NewOVClient = (\<lambda>args. 0),
      GetScopeByName =
        (\<lambda>name w. ((\<lparr>Scope.Name = name, Scope.Description = '''', Scope.Type = ''ScopeV3'',
                        Scope.URI = ''/rest/scopes/1'', InitialScopeUris = [],
                        AddedResourceUris = []\<rparr>, None), w)),
      GetScopes =
        (\<lambda>a b c d sort_str w.
           ((\<lparr>ScopeList.Members = []\<rparr>,
             if w = 1 then Some (Error ''GetScopes: service unavailable'') else None),
            Suc w)),
      CreateScope = (\<lambda>scope w. (Some (Error ''CreateScope: conflict''), w)),
      UpdateScope = (\<lambda>scope w. (None, w)),
      DeleteScope = (\<lambda>name w. (None, w))\<rparr>"

section \<open>Observations on a history of calls\<close>

fun is_RestAPICall :: "('c, 'l, 's, 't) event \<Rightarrow> bool" where
  "is_RestAPICall (EvRestAPICall m uri body) = True"
| "is_RestAPICall _ = False"

fun is_Wait :: "('c, 'l, 's, 't) event \<Rightarrow> bool" where
  "is_Wait (EvWait t) = True"
| "is_Wait _ = False"

definition rest_calls :: "('c, 'l, 's, 't) event list \<Rightarrow> nat" where
  "rest_calls tr = length (filter is_RestAPICall tr)"

definition waits :: "('c, 'l, 's, 't) event list \<Rightarrow> nat" where
  "waits tr = length (filter is_Wait tr)"

text \<open>The variables of the environment that the examples document.\<close>

definition documented_variables :: "string list" where
  "documented_variables =
     [''ONEVIEW_OV_USER'', ''ONEVIEW_OV_PASSWORD'', ''ONEVIEW_OV_DOMAIN'',
      ''ONEVIEW_OV_ENDPOINT'', ''ONEVIEW_APIVERSION'']"

text \<open>
  The history of a fresh client after a profile lookup with the given filter, and after
  the lookup of the sample profile by name followed by the power-off of its hardware.
\<close>

definition lookup_trace :: "string \<Rightarrow> (string, string, string, string) event list" where
  "lookup_trace f =
     [EvRefreshLogin, EvSetAuthHeaderOptions,
      EvSetQueryString [(''filter'', f), (''sort'', ''name:asc'')],
      EvRestAPICall GET ''/rest/server-profiles'' None]"

definition delete_trace :: "(string, string, string, string) event list" where
  "delete_trace =
     lookup_trace (name_filter ''Server_Profile_scs79'') @
     [EvGetServerHardware ''/rest/server-hardware/3037'',
      EvPowerOff \<lparr>ServerHardware.Name = ''blade-3037'', URI = ''/rest/server-hardware/3037''\<rparr>]"

section \<open>Properties of ServerProfile.Clone\<close>

lemma Clone_loop_append: "Clone_loop cl cs ca = ca @ map cl cs"
  by (induction cs arbitrary: ca) simp_all

lemma Clone_Description: "ServerProfile.Description (Clone d s) = ServerProfile.Description s"
  by (simp add: Clone_def zero_ServerProfile_def)

text \<open>
  Claim C8. \<open>ServerProfile.Clone\<close> returns a profile whose server-assigned fields
  (\<open>URI\<close>, \<open>ETAG\<close>, \<open>UUID\<close>, \<open>SerialNumber\<close>, \<open>ServerHardwareURI\<close>,
  \<open>ServerHardwareTypeURI\<close>, \<open>AssociatedServer\<close>, \<open>Category\<close>, \<open>Created\<close>, \<open>Modified\<close>,
  \<open>State\<close>, \<open>Status\<close>, \<open>TaskURI\<close>, \<open>InProgress\<close>) are zero values, whose
  user-configurable fields are those of the receiver, and whose \<open>Connections\<close>,
  \<open>LocalStorage\<close> and \<open>SanStorage\<close> are the results of the \<open>Clone\<close> methods of their
  own types, applied to each connection in order and to the two storage options. The
  method has a value receiver and assigns to its local \<open>ca\<close> only, so the receiver
  \<open>s\<close> is the same value before and after the call.
\<close>

theorem Clone_fields:
  "ServerProfile.URI (Clone d s) = '''' \<and> ETAG (Clone d s) = '''' \<and> UUID (Clone d s) = '''' \<and>
   SerialNumber (Clone d s) = '''' \<and> ServerHardwareURI (Clone d s) = '''' \<and>
   ServerHardwareTypeURI (Clone d s) = '''' \<and> AssociatedServer (Clone d s) = '''' \<and>
   Category (Clone d s) = '''' \<and> Created (Clone d s) = '''' \<and> Modified (Clone d s) = '''' \<and>
   State (Clone d s) = '''' \<and> Status (Clone d s) = '''' \<and> TaskURI (Clone d s) = '''' \<and>
   InProgress (Clone d s) = False \<and>
   Affinity (Clone d s) = Affinity s \<and> Bios (Clone d s) = Bios s \<and> Boot (Clone d s) = Boot s \<and>
   BootMode (Clone d s) = BootMode s \<and>
   ServerProfile.Description (Clone d s) = ServerProfile.Description s \<and>
   EnclosureBay (Clone d s) = EnclosureBay s \<and>
   EnclosureGroupURI (Clone d s) = EnclosureGroupURI s \<and>
   EnclosureURI (Clone d s) = EnclosureURI s \<and> Firmware (Clone d s) = Firmware s \<and>
   HideUnusedFlexNics (Clone d s) = HideUnusedFlexNics s \<and> MACType (Clone d s) = MACType s \<and>
   ServerProfile.Name (Clone d s) = ServerProfile.Name s \<and>
   SerialNumberType (Clone d s) = SerialNumberType s \<and>
   ServerProfile.Type (Clone d s) = ServerProfile.Type s \<and> WWNType (Clone d s) = WWNType s \<and>
   Connections (Clone d s) = map (Connection_Clone d) (Connections s) \<and>
   LocalStorage (Clone d s) = LocalStorageOptions_Clone d (LocalStorage s) \<and>
   SanStorage (Clone d s) = SanStorageOptions_Clone d (SanStorage s)"
  by (simp add: Clone_def Clone_loop_append zero_ServerProfile_def)

section \<open>Properties of the submit step\<close>

text \<open>
  What a submit step adds to the history of the client, and what it returns for given
  answers of the REST layer and of the decoder.
\<close>

lemma SubmitNewProfile_trace:
  "trace (snd (SubmitNewProfile d p c)) = trace c @ [EvRestAPICall POST ''/rest/server-profiles'' (Some p)]"
  by (simp add: SubmitNewProfile_def RestAPICall_def Let_def split: prod.splits)

lemma SubmitDeleteProfile_trace:
  "trace (snd (SubmitDeleteProfile d p c)) =
     trace c @ (if Nstring_String d (ServerProfile.URI p) = '''' then [] else [EvRestAPICall DELETE (Nstring_String d (ServerProfile.URI p)) None])"
  by (simp add: SubmitDeleteProfile_def RestAPICall_def Let_def split: prod.splits)

lemma SubmitNewProfile_result:
  assumes "RestAPICall_answer d (trace c) POST ''/rest/server-profiles'' (Some p) = (data, rerr)"
    and "Unmarshal_Task d data (ResetTask d (NewProfileTask d)) = (t1, uerr)"
  shows "fst (SubmitNewProfile d p c) =
           (if rerr \<noteq> None then ((ResetTask d (NewProfileTask d))\<lparr>TaskIsDone := True\<rparr>, rerr)
            else if uerr \<noteq> None then (t1\<lparr>TaskIsDone := True\<rparr>, uerr)
            else (t1, None))"
  using assms by (simp add: SubmitNewProfile_def RestAPICall_def Let_def)

lemma SubmitDeleteProfile_result:
  assumes "RestAPICall_answer d (trace c) DELETE (Nstring_String d (ServerProfile.URI p)) None = (data, rerr)"
    and "Unmarshal_Task d data (ResetTask d (NewProfileTask d)) = (t1, uerr)"
  shows "fst (SubmitDeleteProfile d p c) =
           (if Nstring_String d (ServerProfile.URI p) = '''' then ((ResetTask d (NewProfileTask d))\<lparr>TaskIsDone := True\<rparr>, None)
            else if rerr \<noteq> None then ((ResetTask d (NewProfileTask d))\<lparr>TaskIsDone := True\<rparr>, rerr)
            else if uerr \<noteq> None then (t1\<lparr>TaskIsDone := True\<rparr>, uerr)
            else (t1, None))"
  using assms by (simp add: SubmitDeleteProfile_def RestAPICall_def Let_def)

lemma sample_Nstring_String:
  "Nstring_String sample_deps n = n"
  "Nstring_String unreachable_deps n = n"
  "Nstring_String undecodable_deps n = n"
  "Nstring_String no_uri_deps n = n"
  by (simp_all add: sample_deps_def unreachable_deps_def undecodable_deps_def no_uri_deps_def)

lemma sample_profile_URI: "ServerProfile.URI sample_profile = ''/rest/server-profiles/9979''"
  by (simp add: sample_profile_def)

lemma sample_profile_Name: "ServerProfile.Name sample_profile = ''Server_Profile_scs79''"
  by (simp add: sample_profile_def)

lemma sample_profile_ServerHardwareURI: "ServerHardwareURI sample_profile = ''/rest/server-hardware/3037''"
  by (simp add: sample_profile_def)

text \<open>
  Claim C2. \<open>SubmitNewProfile\<close> and \<open>SubmitDeleteProfile\<close> issue the mutating operation
  as a single REST call and return the task handle without blocking for completion: the
  history of the client grows by one \<open>POST\<close> to \<open>/rest/server-profiles\<close> with the
  profile as its body, respectively by one \<open>DELETE\<close> of \<open>p.URI.String()\<close> (by nothing
  when that string is empty, the case of claim C5); no call of \<open>Wait\<close> and no further REST call, so no poll of
  the task status, is made before the function returns.
\<close>

theorem submit_single_call_no_wait:
  "trace (snd (SubmitNewProfile d p c)) =
     trace c @ [EvRestAPICall POST ''/rest/server-profiles'' (Some p)] \<and>
   trace (snd (SubmitDeleteProfile d p c)) =
     trace c @ (if Nstring_String d (ServerProfile.URI p) = '''' then []
                else [EvRestAPICall DELETE (Nstring_String d (ServerProfile.URI p)) None]) \<and>
   waits (trace (snd (SubmitNewProfile d p c))) = waits (trace c) \<and>
   waits (trace (snd (SubmitDeleteProfile d p c))) = waits (trace c) \<and>
   rest_calls (trace (snd (SubmitNewProfile d p c))) = rest_calls (trace c) + 1 \<and>
   rest_calls (trace (snd (SubmitDeleteProfile d p c))) \<le> rest_calls (trace c) + 1"
  by (simp add: SubmitNewProfile_trace SubmitDeleteProfile_trace waits_def rest_calls_def)

text \<open>
  Claim C3. A transport error during submission is returned to the caller at once and
  without retry. For every profile and every client: when the REST layer answers the
  \<open>POST\<close> of \<open>SubmitNewProfile\<close> with an error, that error is the error the function
  returns and the call is the only REST call it made; when \<open>p.URI.String()\<close> is not
  empty and the REST layer answers the \<open>DELETE\<close> of \<open>SubmitDeleteProfile\<close> with an
  error, that error is the error the function returns and the call is the only REST
  call it made. Whatever the answers are, each submission makes at most one REST call.
\<close>

theorem submit_transport_error:
  "(snd (RestAPICall_answer d (trace c) POST ''/rest/server-profiles'' (Some p)) = Some e \<longrightarrow>
      snd (fst (SubmitNewProfile d p c)) = Some e \<and>
      rest_calls (trace (snd (SubmitNewProfile d p c))) = rest_calls (trace c) + 1) \<and>
   (Nstring_String d (ServerProfile.URI p) \<noteq> '''' \<and>
    snd (RestAPICall_answer d (trace c) DELETE (Nstring_String d (ServerProfile.URI p)) None) = Some e' \<longrightarrow>
      snd (fst (SubmitDeleteProfile d p c)) = Some e' \<and>
      rest_calls (trace (snd (SubmitDeleteProfile d p c))) = rest_calls (trace c) + 1) \<and>
   rest_calls (trace (snd (SubmitNewProfile d p c))) \<le> rest_calls (trace c) + 1 \<and>
   rest_calls (trace (snd (SubmitDeleteProfile d p c))) \<le> rest_calls (trace c) + 1"
proof (intro conjI impI)
  assume a: "snd (RestAPICall_answer d (trace c) POST ''/rest/server-profiles'' (Some p)) = Some e"
  obtain data where r: "RestAPICall_answer d (trace c) POST ''/rest/server-profiles'' (Some p) = (data, Some e)"
    using a by (cases "RestAPICall_answer d (trace c) POST ''/rest/server-profiles'' (Some p)") simp
  show "snd (fst (SubmitNewProfile d p c)) = Some e"
    using r by (simp add: SubmitNewProfile_def RestAPICall_def Let_def)
next
  show "rest_calls (trace (snd (SubmitNewProfile d p c))) = rest_calls (trace c) + 1"
    by (simp add: SubmitNewProfile_trace rest_calls_def)
next
  assume a: "Nstring_String d (ServerProfile.URI p) \<noteq> '''' \<and>
    snd (RestAPICall_answer d (trace c) DELETE (Nstring_String d (ServerProfile.URI p)) None) = Some e'"
  obtain data where r: "RestAPICall_answer d (trace c) DELETE (Nstring_String d (ServerProfile.URI p)) None = (data, Some e')"
    using a by (cases "RestAPICall_answer d (trace c) DELETE (Nstring_String d (ServerProfile.URI p)) None") simp
  show "snd (fst (SubmitDeleteProfile d p c)) = Some e'"
    using a r by (simp add: SubmitDeleteProfile_def RestAPICall_def Let_def)
  show "rest_calls (trace (snd (SubmitDeleteProfile d p c))) = rest_calls (trace c) + 1"
    using a by (simp add: SubmitDeleteProfile_trace rest_calls_def)
next
  show "rest_calls (trace (snd (SubmitNewProfile d p c))) \<le> rest_calls (trace c) + 1"
    by (simp add: SubmitNewProfile_trace rest_calls_def)
next
  show "rest_calls (trace (snd (SubmitDeleteProfile d p c))) \<le> rest_calls (trace c) + 1"
    by (simp add: SubmitDeleteProfile_trace rest_calls_def)
qed

text \<open>
  The REST layer refuses the connection: both submit functions return that error
  after one call.
\<close>

theorem submit_transport_error_witness:
  "snd (fst (SubmitNewProfile unreachable_deps sample_profile new_client)) =
     Some (Error ''connection refused'') \<and>
   rest_calls (trace (snd (SubmitNewProfile unreachable_deps sample_profile new_client))) = 1 \<and>
   snd (fst (SubmitDeleteProfile unreachable_deps sample_profile new_client)) =
     Some (Error ''connection refused'') \<and>
   rest_calls (trace (snd (SubmitDeleteProfile unreachable_deps sample_profile new_client))) = 1"
proof -
  have h1: "snd (RestAPICall_answer unreachable_deps (trace new_client) POST ''/rest/server-profiles''
              (Some sample_profile)) = Some (Error ''connection refused'')"
    by (simp add: unreachable_deps_def)
  have h2: "Nstring_String unreachable_deps (ServerProfile.URI sample_profile) \<noteq> '''' \<and>
            snd (RestAPICall_answer unreachable_deps (trace new_client) DELETE
                   (Nstring_String unreachable_deps (ServerProfile.URI sample_profile)) None) =
            Some (Error ''connection refused'')"
    by (simp add: sample_profile_URI sample_Nstring_String) (simp add: unreachable_deps_def)
  have r: "rest_calls (trace new_client) = 0"
    by (simp add: rest_calls_def new_client_def)
  note T = submit_transport_error
             [where d = unreachable_deps and p = sample_profile and c = new_client
                and e = "Error ''connection refused''" and e' = "Error ''connection refused''"]
  note n = T [THEN conjunct1, THEN mp, OF h1]
  note m = T [THEN conjunct2, THEN conjunct1, THEN mp, OF h2]
  show ?thesis
    using n m r by simp
qed

text \<open>
  Claim C4. On every return path of \<open>SubmitNewProfile\<close> and \<open>SubmitDeleteProfile\<close>
  that does not produce a successfully unmarshalled task, the returned handle has
  \<open>TaskIsDone\<close> set: whenever the function returns an error (a transport error or an
  unmarshal error), and whenever \<open>p.URI.String()\<close> of the profile to delete is empty.
  The function returns no error exactly when the REST call and the decoder both
  succeeded, which is the remaining path.
\<close>

theorem submit_failure_sets_done:
  "(snd (fst (SubmitNewProfile d p c)) \<noteq> None \<longrightarrow>
      TaskIsDone (fst (fst (SubmitNewProfile d p c)))) \<and>
   (snd (fst (SubmitDeleteProfile d p c)) \<noteq> None \<or> Nstring_String d (ServerProfile.URI p) = '''' \<longrightarrow>
      TaskIsDone (fst (fst (SubmitDeleteProfile d p c)))) \<and>
   (snd (fst (SubmitNewProfile d p c)) = None \<longleftrightarrow>
      snd (RestAPICall_answer d (trace c) POST ''/rest/server-profiles'' (Some p)) = None \<and>
      snd (Unmarshal_Task d (fst (RestAPICall_answer d (trace c) POST ''/rest/server-profiles'' (Some p)))
             (ResetTask d (NewProfileTask d))) = None) \<and>
   (snd (fst (SubmitDeleteProfile d p c)) = None \<and> Nstring_String d (ServerProfile.URI p) \<noteq> '''' \<longleftrightarrow>
      Nstring_String d (ServerProfile.URI p) \<noteq> '''' \<and>
      snd (RestAPICall_answer d (trace c) DELETE (Nstring_String d (ServerProfile.URI p)) None) = None \<and>
      snd (Unmarshal_Task d (fst (RestAPICall_answer d (trace c) DELETE (Nstring_String d (ServerProfile.URI p)) None))
             (ResetTask d (NewProfileTask d))) = None)"
proof -
  obtain data rerr where a: "RestAPICall_answer d (trace c) POST ''/rest/server-profiles'' (Some p) = (data, rerr)"
    by (cases "RestAPICall_answer d (trace c) POST ''/rest/server-profiles'' (Some p)")
  obtain t1 uerr where u: "Unmarshal_Task d data (ResetTask d (NewProfileTask d)) = (t1, uerr)"
    by (cases "Unmarshal_Task d data (ResetTask d (NewProfileTask d))")
  obtain data' rerr' where a': "RestAPICall_answer d (trace c) DELETE (Nstring_String d (ServerProfile.URI p)) None = (data', rerr')"
    by (cases "RestAPICall_answer d (trace c) DELETE (Nstring_String d (ServerProfile.URI p)) None")
  obtain t1' uerr' where u': "Unmarshal_Task d data' (ResetTask d (NewProfileTask d)) = (t1', uerr')"
    by (cases "Unmarshal_Task d data' (ResetTask d (NewProfileTask d))")
  show ?thesis
    by (auto simp add: SubmitNewProfile_result [OF a u] SubmitDeleteProfile_result [OF a' u'] a u a' u')
qed

text \<open>
  The three paths on concrete collaborators: a refused connection, a body the decoder
  rejects, and a profile without URI.
\<close>

theorem submit_failure_sets_done_witness:
  "snd (fst (SubmitNewProfile unreachable_deps sample_profile new_client)) \<noteq> None \<and>
   TaskIsDone (fst (fst (SubmitNewProfile unreachable_deps sample_profile new_client))) \<and>
   snd (fst (SubmitNewProfile undecodable_deps sample_profile new_client)) \<noteq> None \<and>
   TaskIsDone (fst (fst (SubmitNewProfile undecodable_deps sample_profile new_client))) \<and>
   snd (fst (SubmitDeleteProfile unreachable_deps sample_profile new_client)) \<noteq> None \<and>
   TaskIsDone (fst (fst (SubmitDeleteProfile unreachable_deps sample_profile new_client))) \<and>
   snd (fst (SubmitDeleteProfile undecodable_deps sample_profile new_client)) \<noteq> None \<and>
   TaskIsDone (fst (fst (SubmitDeleteProfile undecodable_deps sample_profile new_client))) \<and>
   Nstring_String sample_deps (ServerProfile.URI (sample_profile\<lparr>ServerProfile.URI := ''''\<rparr>)) = '''' \<and>
   TaskIsDone (fst (fst (SubmitDeleteProfile sample_deps (sample_profile\<lparr>ServerProfile.URI := ''''\<rparr>) new_client)))"
proof -
  have a: "snd (fst (SubmitNewProfile unreachable_deps sample_profile new_client)) \<noteq> None"
    by (simp add: SubmitNewProfile_def RestAPICall_def unreachable_deps_def)
  have b: "snd (fst (SubmitNewProfile undecodable_deps sample_profile new_client)) \<noteq> None"
    by (simp add: SubmitNewProfile_def RestAPICall_def undecodable_deps_def sample_deps_def)
  have c: "snd (fst (SubmitDeleteProfile unreachable_deps sample_profile new_client)) \<noteq> None"
    by (simp add: SubmitDeleteProfile_def RestAPICall_def sample_Nstring_String sample_profile_URI)
       (simp add: unreachable_deps_def)
  have d: "snd (fst (SubmitDeleteProfile undecodable_deps sample_profile new_client)) \<noteq> None"
    by (simp add: SubmitDeleteProfile_def RestAPICall_def sample_Nstring_String sample_profile_URI)
       (simp add: undecodable_deps_def sample_deps_def)
  have e: "Nstring_String sample_deps (ServerProfile.URI (sample_profile\<lparr>ServerProfile.URI := ''''\<rparr>)) = ''''"
    by (simp add: sample_Nstring_String)
  note n1 = submit_failure_sets_done [of unreachable_deps sample_profile new_client]
  note n2 = submit_failure_sets_done [of undecodable_deps sample_profile new_client]
  note n3 = submit_failure_sets_done [of sample_deps "sample_profile\<lparr>ServerProfile.URI := ''''\<rparr>" new_client]
  note a' = n1 [THEN conjunct1, THEN mp, OF a]
  note b' = n2 [THEN conjunct1, THEN mp, OF b]
  note c' = n1 [THEN conjunct2, THEN conjunct1, THEN mp, OF disjI1 [OF c]]
  note d' = n2 [THEN conjunct2, THEN conjunct1, THEN mp, OF disjI1 [OF d]]
  note e' = n3 [THEN conjunct2, THEN conjunct1, THEN mp, OF disjI2 [OF e]]
  show ?thesis
    by (intro conjI a a' b b' c c' d d' e e')
qed

section \<open>Properties of the profile lookup\<close>

lemma name_filter_not_empty: "name_filter name \<noteq> ''''"
  by (simp add: name_filter_def)

lemma serialNumber_filter_not_empty: "serialNumber_filter serialnum \<noteq> ''''"
  by (simp add: serialNumber_filter_def)

lemma GetProfiles_answer:
  assumes "f \<noteq> ''''"
    and "RestAPICall_answer d [EvRefreshLogin, EvSetAuthHeaderOptions,
           EvSetQueryString [(''filter'', f), (''sort'', ''name:asc'')]] GET ''/rest/server-profiles'' None
         = (data, None)"
    and "Unmarshal_ServerProfileList d data zero_ServerProfileList = (l, uerr)"
  shows "GetProfiles d f ''name:asc'' new_client = ((l, uerr), \<lparr>trace = lookup_trace f\<rparr>)"
  using assms
  by (simp add: GetProfiles_def RefreshLogin_def SetAuthHeaderOptions_def SetQueryString_def
                RestAPICall_def new_client_def lookup_trace_def Let_def)

lemma GetProfiles_sample_deps:
  "f \<noteq> '''' \<Longrightarrow>
   GetProfiles sample_deps f ''name:asc'' new_client =
     ((zero_ServerProfileList\<lparr>Total := 1, Count := 1, ServerProfileList.Members := [sample_profile]\<rparr>, None),
      \<lparr>trace = lookup_trace f\<rparr>)"
  by (rule GetProfiles_answer) (simp_all add: sample_deps_def)

lemma GetProfiles_short_list_deps:
  "f \<noteq> '''' \<Longrightarrow>
   GetProfiles short_list_deps f ''name:asc'' new_client =
     ((zero_ServerProfileList\<lparr>Total := 1\<rparr>, None), \<lparr>trace = lookup_trace f\<rparr>)"
  by (rule GetProfiles_answer) (simp_all add: short_list_deps_def sample_deps_def)

lemma GetProfiles_unreachable_deps:
  "GetProfiles unreachable_deps f ''name:asc'' new_client =
     ((zero_ServerProfileList, Some (Error ''connection refused'')),
      \<lparr>trace = lookup_trace f\<rparr>)" if "f \<noteq> ''''"
  using that
  by (simp add: GetProfiles_def RefreshLogin_def SetAuthHeaderOptions_def SetQueryString_def
                RestAPICall_def new_client_def lookup_trace_def Let_def unreachable_deps_def)


text \<open>
  Claim C6. For every name, and for every serial number, \<open>GetProfileByName\<close> and
  \<open>GetProfileBySN\<close> return the first member \<open>Members[0]\<close> of the list that
  \<open>GetProfiles\<close> returned whenever the list's \<open>Total\<close> is greater than zero, and the
  zero-value \<open>ServerProfile\<close> otherwise, each time beside the error of \<open>GetProfiles\<close>.
  The access \<open>Members[0]\<close> is in bounds only when \<open>Total > 0\<close> comes with a non-empty
  \<open>Members\<close>: the functions panic exactly when \<open>Total > 0\<close> and \<open>Members\<close> is empty.
\<close>

theorem first_member_or_zero:
  assumes "GetProfiles d (name_filter name) ''name:asc'' c = ((profiles, err), c')"
    and "GetProfiles d (serialNumber_filter serialnum) ''name:asc'' c = ((profiles2, err2), c2)"
  shows "(0 < Total profiles \<and> ServerProfileList.Members profiles = m # ms \<longrightarrow>
            GetProfileByName d name c = Returned ((m, err), c')) \<and>
         (\<not> 0 < Total profiles \<longrightarrow>
            GetProfileByName d name c =
              Returned ((zero_ServerProfile (zero_LocalStorageOptions d) (zero_SanStorageOptions d), err), c')) \<and>
         (GetProfileByName d name c = Panicked \<longleftrightarrow>
            0 < Total profiles \<and> ServerProfileList.Members profiles = []) \<and>
         (0 < Total profiles2 \<and> ServerProfileList.Members profiles2 = m' # ms' \<longrightarrow>
            GetProfileBySN d serialnum c = Returned ((m', err2), c2)) \<and>
         (\<not> 0 < Total profiles2 \<longrightarrow>
            GetProfileBySN d serialnum c =
              Returned ((zero_ServerProfile (zero_LocalStorageOptions d) (zero_SanStorageOptions d), err2), c2)) \<and>
         (GetProfileBySN d serialnum c = Panicked \<longleftrightarrow>
            0 < Total profiles2 \<and> ServerProfileList.Members profiles2 = [])"
  using assms
  by (simp add: GetProfileByName_def GetProfileBySN_def Let_def split: list.splits)

text \<open>
  An appliance that lists one profile, one that cannot be reached (the list stays the
  zero value), and a decoder that sets \<open>Total\<close> to one and leaves \<open>Members\<close> empty.
\<close>

theorem first_member_or_zero_witness:
  "GetProfileByName sample_deps ''Server_Profile_scs79'' new_client =
     Returned ((sample_profile, None), \<lparr>trace = lookup_trace (name_filter ''Server_Profile_scs79'')\<rparr>) \<and>
   GetProfileBySN sample_deps ''2M25090RMW'' new_client =
     Returned ((sample_profile, None), \<lparr>trace = lookup_trace (serialNumber_filter ''2M25090RMW'')\<rparr>) \<and>
   GetProfileByName unreachable_deps ''Server_Profile_scs79'' new_client =
     Returned ((zero_ServerProfile '''' '''', Some (Error ''connection refused'')),
               \<lparr>trace = lookup_trace (name_filter ''Server_Profile_scs79'')\<rparr>) \<and>
   GetProfileBySN unreachable_deps ''2M25090RMW'' new_client =
     Returned ((zero_ServerProfile '''' '''', Some (Error ''connection refused'')),
               \<lparr>trace = lookup_trace (serialNumber_filter ''2M25090RMW'')\<rparr>) \<and>
   GetProfileByName short_list_deps ''Server_Profile_scs79'' new_client = Panicked \<and>
   GetProfileBySN short_list_deps ''2M25090RMW'' new_client = Panicked"
proof -
  note s = first_member_or_zero
             [OF GetProfiles_sample_deps [OF name_filter_not_empty]
                 GetProfiles_sample_deps [OF serialNumber_filter_not_empty],
              where m = sample_profile and ms = "[]" and m' = sample_profile and ms' = "[]"]
  note u = first_member_or_zero
             [OF GetProfiles_unreachable_deps [OF name_filter_not_empty]
                 GetProfiles_unreachable_deps [OF serialNumber_filter_not_empty],
              where m = sample_profile and ms = "[]" and m' = sample_profile and ms' = "[]"]
  note p = first_member_or_zero
             [OF GetProfiles_short_list_deps [OF name_filter_not_empty]
                 GetProfiles_short_list_deps [OF serialNumber_filter_not_empty],
              where m = sample_profile and ms = "[]" and m' = sample_profile and ms' = "[]"]
  have z: "zero_LocalStorageOptions unreachable_deps = ''''" "zero_SanStorageOptions unreachable_deps = ''''"
    by (simp_all add: unreachable_deps_def sample_deps_def)
  show ?thesis
    using s u p z by (simp add: zero_ServerProfileList_def)
qed

section \<open>Properties of profile creation and deletion\<close>

lemma DeleteProfile_power_off_sample:
  "GetServerHardware_answer d (lookup_trace (name_filter ''Server_Profile_scs79'')) ''/rest/server-hardware/3037'' =
     (\<lparr>ServerHardware.Name = ''blade-3037'', URI = ''/rest/server-hardware/3037''\<rparr>, None) \<Longrightarrow>
   ServerHardwareURI p = ''/rest/server-hardware/3037'' \<Longrightarrow>
   DeleteProfile_power_off d p \<lparr>trace = lookup_trace (name_filter ''Server_Profile_scs79'')\<rparr> =
     \<lparr>trace = delete_trace\<rparr>"
  by (simp add: DeleteProfile_power_off_def GetServerHardware_def PowerOff_def delete_trace_def Let_def)

lemma new_template_of_eq:
  "new_template_of d name template blade =
     (Clone d template)\<lparr>ServerHardwareURI := ServerHardware.URI blade,
                        ServerProfile.Description := ServerProfile.Description template @ '' '' @ name,
                        ServerProfile.Name := name\<rparr>"
  by (simp add: new_template_of_def Let_def Clone_Description)

lemma CreateProfileFromTemplate_trace:
  "trace (snd (CreateProfileFromTemplate d name template blade c)) =
     trace c @ [EvRestAPICall POST ''/rest/server-profiles'' (Some (new_template_of d name template blade)),
                EvWait (fst (fst (SubmitNewProfile d (new_template_of d name template blade) c)))]"
proof -
  obtain t serr c1 where s: "SubmitNewProfile d (new_template_of d name template blade) c = ((t, serr), c1)"
    by (metis surj_pair)
  have "trace c1 = trace c @ [EvRestAPICall POST ''/rest/server-profiles'' (Some (new_template_of d name template blade))]"
    using SubmitNewProfile_trace [of d "new_template_of d name template blade" c] s by simp
  then show ?thesis
    using s by (simp add: CreateProfileFromTemplate_def Wait_def)
qed


text \<open>
  Claim C1. For every call, \<open>CreateProfileFromTemplate\<close> calls \<open>Wait\<close> on the task
  handle that the submit step returned, as the last call it makes, and returns what
  \<open>Wait\<close> returns: success when \<open>Wait\<close> reports no error, and the error of \<open>Wait\<close>
  otherwise. \<open>DeleteProfile\<close> does the same when a profile with the given name exists,
  that is, when the lookup returns a profile with a nil error and a name that is not
  empty. The error that the submit step returned is not read.
\<close>

theorem wait_decides:
  "(case SubmitNewProfile d (new_template_of d name template blade) c of
      ((t, serr), c1) \<Rightarrow>
        CreateProfileFromTemplate d name template blade c =
          (Wait_answer d (trace c1) t, \<lparr>trace = trace c1 @ [EvWait t]\<rparr>)) \<and>
   (GetProfileByName d name' c' = Returned ((profile, None), c0) \<and>
    ServerProfile.Name profile \<noteq> '''' \<longrightarrow>
      (case SubmitDeleteProfile d profile (DeleteProfile_power_off d profile c0) of
         ((t, serr), c1) \<Rightarrow>
           DeleteProfile d name' c' =
             Returned (Wait_answer d (trace c1) t, \<lparr>trace = trace c1 @ [EvWait t]\<rparr>)))"
  by (simp add: CreateProfileFromTemplate_def DeleteProfile_def Wait_def Let_def split: prod.splits)

text \<open>
  An appliance that answers every call: the creation posts the snapshot and waits; the
  deletion looks the profile up, powers its hardware off, deletes the profile's URI
  and waits.
\<close>

theorem wait_decides_witness:
  "CreateProfileFromTemplate sample_deps ''web-1'' sample_profile sample_blade new_client =
     (None,
      \<lparr>trace = [EvRestAPICall POST ''/rest/server-profiles''
                   (Some (new_template_of sample_deps ''web-1'' sample_profile sample_blade)),
                 EvWait \<lparr>TaskIsDone = False, TaskFields = ''{}''\<rparr>]\<rparr>) \<and>
   DeleteProfile sample_deps ''Server_Profile_scs79'' new_client =
     Returned (None,
       \<lparr>trace = delete_trace @
                 [EvRestAPICall DELETE ''/rest/server-profiles/9979'' None,
                  EvWait \<lparr>TaskIsDone = False, TaskFields = ''{}''\<rparr>]\<rparr>)"
proof -
  have h1: "SubmitNewProfile sample_deps (new_template_of sample_deps ''web-1'' sample_profile sample_blade)
              new_client =
            ((\<lparr>TaskIsDone = False, TaskFields = ''{}''\<rparr>, None),
             \<lparr>trace = [EvRestAPICall POST ''/rest/server-profiles''
                          (Some (new_template_of sample_deps ''web-1'' sample_profile sample_blade))]\<rparr>)"
    by (simp add: SubmitNewProfile_def RestAPICall_def sample_deps_def new_client_def)
  have g: "GetProfileByName sample_deps ''Server_Profile_scs79'' new_client =
             Returned ((sample_profile, None), \<lparr>trace = lookup_trace (name_filter ''Server_Profile_scs79'')\<rparr>) \<and>
           ServerProfile.Name sample_profile \<noteq> ''''"
    by (simp add: GetProfileByName_def GetProfiles_sample_deps [OF name_filter_not_empty]
                  zero_ServerProfileList_def sample_profile_Name)
  have po: "DeleteProfile_power_off sample_deps sample_profile
              \<lparr>trace = lookup_trace (name_filter ''Server_Profile_scs79'')\<rparr> = \<lparr>trace = delete_trace\<rparr>"
    by (rule DeleteProfile_power_off_sample) (simp_all add: sample_deps_def sample_profile_ServerHardwareURI)
  have h4: "SubmitDeleteProfile sample_deps sample_profile
              (DeleteProfile_power_off sample_deps sample_profile
                 \<lparr>trace = lookup_trace (name_filter ''Server_Profile_scs79'')\<rparr>) =
            ((\<lparr>TaskIsDone = False, TaskFields = ''{}''\<rparr>, None),
             \<lparr>trace = delete_trace @ [EvRestAPICall DELETE ''/rest/server-profiles/9979'' None]\<rparr>)"
    unfolding po
    by (simp add: SubmitDeleteProfile_def RestAPICall_def sample_Nstring_String sample_profile_URI Let_def)
       (simp add: sample_deps_def)
  have w: "Wait_answer sample_deps tr t = None" for tr t
    by (simp add: sample_deps_def)
  note T = wait_decides
             [where d = sample_deps and name = "''web-1''" and template = sample_profile
                and blade = sample_blade and c = new_client
                and name' = "''Server_Profile_scs79''" and c' = new_client
                and profile = sample_profile
                and ?c0.0 = "\<lparr>trace = lookup_trace (name_filter ''Server_Profile_scs79'')\<rparr>"]
  note n = T [THEN conjunct1, unfolded h1]
  note m = T [THEN conjunct2, THEN mp, OF g, unfolded h4]
  show ?thesis
    using n m by (simp add: w)
qed




text \<open>
  Claim C7. Profile creation pushes the whole locally built object:
  \<open>CreateProfileFromTemplate\<close> builds a local snapshot, the clone of the template with
  \<open>ServerHardwareURI\<close> set to the blade's URI, \<open>Description\<close> set to the template's
  description followed by a space and the name, and \<open>Name\<close> set to the name; the
  whole record is the body of the one \<open>POST\<close> to \<open>/rest/server-profiles\<close>, which is
  the only REST call of the creation. The template is a by-value argument that is only
  read: the snapshot is expressed by the template as the caller passed it.
\<close>

theorem create_pushes_snapshot:
  "new_template_of d name template blade =
     (Clone d template)\<lparr>ServerHardwareURI := ServerHardware.URI blade,
                        ServerProfile.Description := ServerProfile.Description template @ '' '' @ name,
                        ServerProfile.Name := name\<rparr> \<and>
   (\<exists>t. trace (snd (CreateProfileFromTemplate d name template blade c)) =
          trace c @ [EvRestAPICall POST ''/rest/server-profiles''
                       (Some (new_template_of d name template blade)),
                     EvWait t]) \<and>
   rest_calls (trace (snd (CreateProfileFromTemplate d name template blade c))) = rest_calls (trace c) + 1"
proof (intro conjI)
  show "new_template_of d name template blade =
     (Clone d template)\<lparr>ServerHardwareURI := ServerHardware.URI blade,
                        ServerProfile.Description := ServerProfile.Description template @ '' '' @ name,
                        ServerProfile.Name := name\<rparr>"
    by (rule new_template_of_eq)
  show "\<exists>t. trace (snd (CreateProfileFromTemplate d name template blade c)) =
          trace c @ [EvRestAPICall POST ''/rest/server-profiles''
                       (Some (new_template_of d name template blade)),
                     EvWait t]"
    using CreateProfileFromTemplate_trace by blast
  show "rest_calls (trace (snd (CreateProfileFromTemplate d name template blade c))) = rest_calls (trace c) + 1"
    by (simp only: CreateProfileFromTemplate_trace) (simp add: rest_calls_def)
qed

section \<open>Properties of the example programs\<close>

text \<open>
  Claim C9. Each example builds its client from the documented configuration sources:
  the scope examples and the SSH access example pass the values of the variables
  \<open>ONEVIEW_OV_USER\<close>, \<open>ONEVIEW_OV_PASSWORD\<close>, \<open>ONEVIEW_OV_DOMAIN\<close> and
  \<open>ONEVIEW_OV_ENDPOINT\<close> (and \<open>ONEVIEW_APIVERSION\<close> parsed by \<open>Atoi\<close> where it is
  used; \<open>scope.go\<close> passes the literal 800) to \<open>NewOVClient\<close>, and the FC-network
  example passes the fields \<open>UserName\<close>, \<open>Password\<close>, \<open>Domain\<close>, \<open>Endpoint\<close>,
  \<open>SSlVerify\<close>, \<open>ApiVersion\<close>, \<open>IfMatch\<close> of the configuration loaded from
  \<open>oneview_config.json\<close>. Nothing else of the environment or of the file system
  matters: two environments that agree on the documented variables, and two loaders
  that agree on the configuration of that file, give the same arguments.
\<close>

theorem client_args_sources:
  assumes "\<forall>v \<in> set documented_variables. getenv v = getenv' v"
    and "fst (LoadConfigFile ''oneview_config.json'') = fst (LoadConfigFile' ''oneview_config.json'')"
  shows "scope_client_args getenv =
           \<lparr>user = getenv ''ONEVIEW_OV_USER'', password = getenv ''ONEVIEW_OV_PASSWORD'',
            domain = getenv ''ONEVIEW_OV_DOMAIN'', endpoint = getenv ''ONEVIEW_OV_ENDPOINT'',
            sslverify = False, apiversion = 800, ifmatch = ''*''\<rparr> \<and>
         scope_ethernet_client_args Atoi getenv =
           \<lparr>user = getenv ''ONEVIEW_OV_USER'', password = getenv ''ONEVIEW_OV_PASSWORD'',
            domain = getenv ''ONEVIEW_OV_DOMAIN'', endpoint = getenv ''ONEVIEW_OV_ENDPOINT'',
            sslverify = False, apiversion = fst (Atoi (getenv ''ONEVIEW_APIVERSION'')),
            ifmatch = ''*''\<rparr> \<and>
         appliance_ssh_access_client_args Atoi getenv =
           \<lparr>user = getenv ''ONEVIEW_OV_USER'', password = getenv ''ONEVIEW_OV_PASSWORD'',
            domain = getenv ''ONEVIEW_OV_DOMAIN'', endpoint = getenv ''ONEVIEW_OV_ENDPOINT'',
            sslverify = False, apiversion = fst (Atoi (getenv ''ONEVIEW_APIVERSION'')),
            ifmatch = ''*''\<rparr> \<and>
         fc_config_client_args LoadConfigFile =
           \<lparr>user = UserName (fst (LoadConfigFile ''oneview_config.json'')),
            password = Password (fst (LoadConfigFile ''oneview_config.json'')),
            domain = Configuration.Domain (fst (LoadConfigFile ''oneview_config.json'')),
            endpoint = Endpoint (fst (LoadConfigFile ''oneview_config.json'')),
            sslverify = SSlVerify (fst (LoadConfigFile ''oneview_config.json'')),
            apiversion = ApiVersion (fst (LoadConfigFile ''oneview_config.json'')),
            ifmatch = IfMatch (fst (LoadConfigFile ''oneview_config.json''))\<rparr> \<and>
         scope_client_args getenv = scope_client_args getenv' \<and>
         scope_ethernet_client_args Atoi getenv = scope_ethernet_client_args Atoi getenv' \<and>
         appliance_ssh_access_client_args Atoi getenv = appliance_ssh_access_client_args Atoi getenv' \<and>
         fc_config_client_args LoadConfigFile = fc_config_client_args LoadConfigFile'"
  using assms
  by (simp add: scope_client_args_def scope_ethernet_client_args_def
                appliance_ssh_access_client_args_def fc_config_client_args_def
                documented_variables_def case_prod_beta)

text \<open>
  An environment with the five variables set, compared with the same environment with
  one more variable; a loader compared with one that knows a second file.
\<close>

theorem client_args_sources_witness:
  "scope_client_args sample_getenv =
     \<lparr>user = ''Administrator'', password = ''secret'', domain = ''LOCAL'',
      endpoint = ''https://10.0.0.1'', sslverify = False, apiversion = 800, ifmatch = ''*''\<rparr> \<and>
   scope_ethernet_client_args sample_Atoi sample_getenv =
     \<lparr>user = ''Administrator'', password = ''secret'', domain = ''LOCAL'',
      endpoint = ''https://10.0.0.1'', sslverify = False, apiversion = 800, ifmatch = ''*''\<rparr> \<and>
   appliance_ssh_access_client_args sample_Atoi sample_getenv =
     \<lparr>user = ''Administrator'', password = ''secret'', domain = ''LOCAL'',
      endpoint = ''https://10.0.0.1'', sslverify = False, apiversion = 800, ifmatch = ''*''\<rparr> \<and>
   fc_config_client_args sample_LoadConfigFile =
     \<lparr>user = ''Administrator'', password = ''secret'', domain = ''LOCAL'',
      endpoint = ''https://10.0.0.1'', sslverify = False, apiversion = 800, ifmatch = ''*''\<rparr> \<and>
   scope_client_args sample_getenv = scope_client_args (sample_getenv(''HOME'' := ''/root'')) \<and>
   scope_ethernet_client_args sample_Atoi sample_getenv =
     scope_ethernet_client_args sample_Atoi (sample_getenv(''HOME'' := ''/root'')) \<and>
   appliance_ssh_access_client_args sample_Atoi sample_getenv =
     appliance_ssh_access_client_args sample_Atoi (sample_getenv(''HOME'' := ''/root'')) \<and>
   fc_config_client_args sample_LoadConfigFile =
     fc_config_client_args
       (sample_LoadConfigFile(''other.json'' := sample_LoadConfigFile ''oneview_config.json''))"
proof -
  have h1: "\<forall>v \<in> set documented_variables. sample_getenv v = (sample_getenv(''HOME'' := ''/root'')) v"
    by (simp add: documented_variables_def)
  have h2: "fst (sample_LoadConfigFile ''oneview_config.json'') =
            fst ((sample_LoadConfigFile(''other.json'' := sample_LoadConfigFile ''oneview_config.json''))
                   ''oneview_config.json'')"
    by simp
  show ?thesis
    using client_args_sources
            [where getenv = sample_getenv and getenv' = "sample_getenv(''HOME'' := ''/root'')"
               and LoadConfigFile = sample_LoadConfigFile
               and LoadConfigFile' = "sample_LoadConfigFile(''other.json'' := sample_LoadConfigFile ''oneview_config.json'')"
               and Atoi = sample_Atoi, OF h1 h2]
    by (auto simp add: sample_getenv_def sample_Atoi_def sample_LoadConfigFile_def)
qed

text \<open>
  Claim C10. In the scope example every SDK error is printed, after which execution
  continues (\<open>CreateScope\<close>, \<open>GetScopeByName\<close>, \<open>GetScopes\<close>), or stops the process
  by a panic (\<open>UpdateScope\<close>, \<open>DeleteScope\<close>). The program does not do so at two
  places. With an SDK whose \<open>CreateScope\<close> fails and whose second \<open>GetScopes\<close> (line
  67) fails, the run below ends normally and prints neither error: line 48 prints the
  variable \<open>err\<close> of line 34, which is nil here, where the scope and ethernet example
  prints \<open>er\<close>; and the error of line 67 is never tested, where lines 34 and 78 test
  and print it.
\<close>

theorem scope_main_drops_errors:
  "scope_main failing_scope_sdk sample_getenv =
     ([[PString ''#................... Scope by Name ...............#''],
       [PScope \<lparr>Scope.Name = ''updated-SD2'', Scope.Description = '''', Scope.Type = ''ScopeV3'',
                Scope.URI = ''/rest/scopes/1'', InitialScopeUris = [], AddedResourceUris = []\<rparr>],
       [PString ''# ................... Scopes List .................#''],
       [PString ''............... Scope Creation Failed:'', PError None],
       [PString ''#.................... Scope after Updating ...........#''],
       [PString ''#...................... Deleted Scope Successfully .....#''],
       [PString ''# ................... Scopes List .................#'']],
      ExitNormal)"
  by (simp add: scope_main_def scope_main_tail_def failing_scope_sdk_def Let_def)

end
